theory Spec2Isabelle
  imports Complex_Main "HOL-Library.Log_Nat"
begin

section \<open>The news dashboard (News.tsx)\<close>

text \<open>
  The component \<open>News\<close> keeps three pieces of state (selected category, selected asset,
  search text), builds three request URLs from them, and renders what the three queries
  returned. A JavaScript string is modelled as the list of the bytes of its UTF-8
  encoding (\<open>string\<close>); a JavaScript number that holds a JSON value is modelled as the
  rational it denotes.
\<close>

subsection \<open>Data model\<close>

datatype Sentiment = Bullish | Bearish | Neutral

datatype Importance = High | Medium | Low

record NewsArticle =
  id' :: string
  title :: string
  summary :: string
  sentiment :: Sentiment
  category :: string
  assets :: "string list"
  timestamp :: string
  source :: string
  importance :: Importance
  url :: string
  impactScore :: rat
  volatilityScore :: rat
  biasScore :: rat
  reasons :: "string list option"

record NewsAlerts =
  generatedAt :: string
  minutes :: rat
  minImpact :: rat
  alerts :: "NewsArticle list"

subsection \<open>Sentiment tallies\<close>

definition bullishCount :: "NewsArticle list \<Rightarrow> nat" where
  "bullishCount news = length (filter (\<lambda>n. sentiment n = Bullish) news)"

definition bearishCount :: "NewsArticle list \<Rightarrow> nat" where
  "bearishCount news = length (filter (\<lambda>n. sentiment n = Bearish) news)"

definition neutralCount :: "NewsArticle list \<Rightarrow> nat" where
  "neutralCount news = length (filter (\<lambda>n. sentiment n = Neutral) news)"

text \<open>
  The four statistic cards, by their \<open>data-testid\<close>: \<open>text-total-stories\<close>,
  \<open>text-bullish-count\<close>, \<open>text-bearish-count\<close> and \<open>text-neutral-count\<close>.
\<close>

record StatCards =
  totalStories :: nat
  bullishCard :: nat
  bearishCard :: nat
  neutralCard :: nat

definition statCards :: "NewsArticle list \<Rightarrow> StatCards" where
  "statCards news =
     \<lparr> totalStories = length news,
       bullishCard = bullishCount news,
       bearishCard = bearishCount news,
       neutralCard = neutralCount news \<rparr>"

subsection \<open>Impact label\<close>

record Label =
  text' :: string
  cls :: string

definition impactLabel :: "NewsArticle \<Rightarrow> Label" where
  "impactLabel a =
     (if volatilityScore a \<ge> 70 then
        \<lparr> text' = ''Volatility spike'', cls = ''bg-rose-500/20 text-rose-300'' \<rparr>
      else if biasScore a \<ge> 25 / 100 then
        \<lparr> text' = ''Risk-on'', cls = ''bg-emerald-500/20 text-emerald-300'' \<rparr>
      else if biasScore a \<le> - (25 / 100) then
        \<lparr> text' = ''Risk-off'', cls = ''bg-amber-500/20 text-amber-300'' \<rparr>
      else
        \<lparr> text' = ''Mixed'', cls = ''bg-slate-500/20 text-slate-300'' \<rparr>)"

subsection \<open>Time since publication\<close>

text \<open>
  Number-to-string conversion of an integer, as a template literal does it: decimal
  digits, most significant first, with a minus sign for a negative number.
\<close>

definition digitChar :: "nat \<Rightarrow> char" where
  "digitChar d = char_of (48 + d)"

fun showNat :: "nat \<Rightarrow> string" where
  "showNat n = (if n < 10 then [digitChar n] else showNat (n div 10) @ [digitChar (n mod 10)])"

definition showInt :: "int \<Rightarrow> string" where
  "showInt i = (if i < 0 then CHR ''-'' # showNat (nat (- i)) else showNat (nat i))"

text \<open>
  \<open>formatTimeAgo\<close>. The two clock reads are parameters: \<open>getTime\<close> stands for
  \<open>new Date(timestamp).getTime()\<close>, which is \<open>None\<close> where JavaScript yields NaN (a
  string that is no date), and \<open>now\<close> for \<open>new Date().getTime()\<close>. Time values are
  whole milliseconds, so \<open>Math.floor\<close> of a quotient is integer division rounding
  down. Every comparison with NaN is false, so an invalid date falls through to the
  last \<open>return\<close>.
\<close>

definition formatTimeAgo :: "(string \<Rightarrow> int option) \<Rightarrow> int \<Rightarrow> string \<Rightarrow> string" where
  "formatTimeAgo getTime now ts =
     (case getTime ts of
        None \<Rightarrow> ''NaNd ago''
      | Some date \<Rightarrow>
          (let diffMs = now - date;
               diffMins = diffMs div 60000
           in if diffMins < 1 then ''Just now''
              else if diffMins < 60 then showInt diffMins @ ''m ago''
              else (let diffHours = diffMins div 60
                    in if diffHours < 24 then showInt diffHours @ ''h ago''
                       else showInt (diffHours div 24) @ ''d ago'')))"

subsection \<open>Strings\<close>

text \<open>
  \<open>String.prototype.split\<close> with a one-character separator: the pieces between the
  separators, in order; a string without the separator is the only piece. The result
  is never empty, so the first case of the inner \<open>case\<close> does not arise.
\<close>

fun splitOn :: "char \<Rightarrow> string \<Rightarrow> string list" where
  "splitOn c [] = [[]]"
| "splitOn c (x # xs) =
     (if x = c then [] # splitOn c xs
      else (case splitOn c xs of [] \<Rightarrow> [[x]] | y # ys \<Rightarrow> (x # y) # ys))"

text \<open>
  \<open>String.prototype.toUpperCase\<close> on the letters a to z. A trading pair symbol is
  ASCII text; other bytes are kept as they are.
\<close>

definition toUpperCase :: "string \<Rightarrow> string" where
  "toUpperCase s =
     map (\<lambda>c. if 97 \<le> (of_char c :: nat) \<and> (of_char c :: nat) \<le> 122
              then char_of ((of_char c :: nat) - 32) else c) s"

text \<open>
  \<open>String.prototype.trim\<close> removes the WhiteSpace and LineTerminator code points of
  ECMAScript from both ends. They are listed here by their UTF-8 encodings: U+0009 to
  U+000D, U+0020, U+00A0, U+1680, U+2000 to U+200A, U+2028, U+2029, U+202F, U+205F,
  U+3000 and U+FEFF.
\<close>

definition whiteSpace :: "string list" where
  "whiteSpace =
     [[CHR 0x09], [CHR 0x0A], [CHR 0x0B], [CHR 0x0C], [CHR 0x0D], [CHR 0x20],
      [CHR 0xC2, CHR 0xA0],
      [CHR 0xE1, CHR 0x9A, CHR 0x80],
      [CHR 0xE2, CHR 0x80, CHR 0x80], [CHR 0xE2, CHR 0x80, CHR 0x81],
      [CHR 0xE2, CHR 0x80, CHR 0x82], [CHR 0xE2, CHR 0x80, CHR 0x83],
      [CHR 0xE2, CHR 0x80, CHR 0x84], [CHR 0xE2, CHR 0x80, CHR 0x85],
      [CHR 0xE2, CHR 0x80, CHR 0x86], [CHR 0xE2, CHR 0x80, CHR 0x87],
      [CHR 0xE2, CHR 0x80, CHR 0x88], [CHR 0xE2, CHR 0x80, CHR 0x89],
      [CHR 0xE2, CHR 0x80, CHR 0x8A],
      [CHR 0xE2, CHR 0x80, CHR 0xA8], [CHR 0xE2, CHR 0x80, CHR 0xA9],
      [CHR 0xE2, CHR 0x80, CHR 0xAF],
      [CHR 0xE2, CHR 0x81, CHR 0x9F],
      [CHR 0xE3, CHR 0x80, CHR 0x80],
      [CHR 0xEF, CHR 0xBB, CHR 0xBF]]"

fun stripPrefixAny :: "string list \<Rightarrow> string \<Rightarrow> string option" where
  "stripPrefixAny [] s = None"
| "stripPrefixAny (w # ws) s =
     (if w \<noteq> [] \<and> take (length w) s = w then Some (drop (length w) s)
      else stripPrefixAny ws s)"

function stripLeading :: "string list \<Rightarrow> string \<Rightarrow> string" where
  "stripLeading ws s =
     (case stripPrefixAny ws s of None \<Rightarrow> s | Some r \<Rightarrow> stripLeading ws r)"
  by pat_completeness auto
termination
proof (relation "measure (\<lambda>(ws, s). length s)")
  show "wf (measure (\<lambda>(ws :: string list, s :: string). length s))"
    by simp
next
  fix ws :: "string list" and s r :: string
  assume "stripPrefixAny ws s = Some r"
  then have "length r < length s"
  proof (induction ws)
    case Nil
    then show ?case by simp
  next
    case (Cons w ws)
    show ?case
    proof (cases "w \<noteq> [] \<and> take (length w) s = w")
      case True
      then have "s \<noteq> []" by auto
      moreover from True Cons.prems have "r = drop (length w) s" by simp
      ultimately show ?thesis using True by (cases s) auto
    next
      case False
      with Cons show ?thesis by auto
    qed
  qed
  then show "((ws, r), (ws, s)) \<in> measure (\<lambda>(ws, s). length s)"
    by simp
qed

definition trimStart :: "string \<Rightarrow> string" where
  "trimStart s = stripLeading whiteSpace s"

definition trimEnd :: "string \<Rightarrow> string" where
  "trimEnd s = rev (stripLeading (map rev whiteSpace) (rev s))"

definition trim :: "string \<Rightarrow> string" where
  "trim s = trimEnd (trimStart s)"

subsection \<open>Query strings\<close>

text \<open>
  A \<open>URLSearchParams\<close> object is its list of name-value pairs, in the order of the
  properties of the object literal it is built from. \<open>toString\<close> serialises the list
  as application/x-www-form-urlencoded: the bytes of ASCII letters and digits and of
  \<open>* - . _\<close> stand for themselves, a space becomes \<open>+\<close>, every other byte becomes
  \<open>%\<close> and two upper-case hexadecimal digits; a name and its value are joined by
  \<open>=\<close> and the pairs by \<open>&\<close>.
\<close>

type_synonym URLSearchParams = "(string \<times> string) list"

definition unreserved :: "char \<Rightarrow> bool" where
  "unreserved c =
     (let n = (of_char c :: nat)
      in (48 \<le> n \<and> n \<le> 57) \<or> (65 \<le> n \<and> n \<le> 90) \<or> (97 \<le> n \<and> n \<le> 122) \<or>
         c = CHR ''*'' \<or> c = CHR ''-'' \<or> c = CHR ''.'' \<or> c = CHR ''_'')"

definition hexDigit :: "nat \<Rightarrow> char" where
  "hexDigit n = (if n < 10 then char_of (48 + n) else char_of (55 + n))"

definition urlencodeByte :: "char \<Rightarrow> string" where
  "urlencodeByte c =
     (if unreserved c then [c]
      else if c = CHR '' '' then ''+''
      else [CHR ''%'', hexDigit ((of_char c :: nat) div 16), hexDigit ((of_char c :: nat) mod 16)])"

definition urlencode :: "string \<Rightarrow> string" where
  "urlencode s = concat (map urlencodeByte s)"

fun toString :: "URLSearchParams \<Rightarrow> string" where
  "toString [] = []"
| "toString [(k, v)] = urlencode k @ ''='' @ urlencode v"
| "toString ((k, v) # p # ps) = urlencode k @ ''='' @ urlencode v @ ''&'' @ toString (p # ps)"

subsection \<open>Component state and request URLs\<close>

text \<open>
  The three \<open>useState\<close> cells, and the symbol of the bot that \<open>useBot\<close> returns
  (\<open>None\<close> where \<open>bot?.symbol\<close> is undefined).
\<close>

record DashState =
  selectedCategory :: string
  selectedAsset :: string
  searchText :: string
  botSymbol :: "string option"

definition initialState :: "string option \<Rightarrow> DashState" where
  "initialState b =
     \<lparr> selectedCategory = ''all'', selectedAsset = ''FOR_YOU'', searchText = [],
       botSymbol = b \<rparr>"

definition botBaseAsset :: "DashState \<Rightarrow> string" where
  "botBaseAsset s =
     (let sym = (case botSymbol s of
                   None \<Rightarrow> ''BTC/USDT''
                 | Some y \<Rightarrow> if y = [] then ''BTC/USDT'' else y)
      in toUpperCase (hd (splitOn CHR ''/'' sym)))"

definition newsUrl :: "DashState \<Rightarrow> string" where
  "newsUrl s =
     (let q = trim (searchText s);
          params = [(''asset'', selectedAsset s),
                    (''category'', selectedCategory s),
                    (''hours'', ''48''),
                    (''limit'', ''80'')] @ (if q \<noteq> [] then [(''q'', q)] else [])
      in ''/api/news?'' @ toString params)"

definition briefingUrl :: "DashState \<Rightarrow> string" where
  "briefingUrl s =
     (let params = [(''asset'', selectedAsset s), (''hours'', ''24'')]
      in ''/api/news/briefing?'' @ toString params)"

definition alertsUrl :: "DashState \<Rightarrow> string" where
  "alertsUrl s =
     (let params = [(''asset'', selectedAsset s), (''minutes'', ''180''), (''minImpact'', ''75'')]
      in ''/api/news/alerts?'' @ toString params)"

definition categories :: "string list" where
  "categories =
     [''all'', ''market'', ''regulation'', ''technology'', ''defi'', ''security'', ''adoption'']"

record AssetFilter =
  key :: string
  label :: string

definition assetFilters :: "DashState \<Rightarrow> AssetFilter list" where
  "assetFilters s =
     [\<lparr> key = ''FOR_YOU'', label = ''For you ('' @ botBaseAsset s @ '')'' \<rparr>,
      \<lparr> key = ''BTC'', label = ''BTC'' \<rparr>,
      \<lparr> key = ''ETH'', label = ''ETH'' \<rparr>,
      \<lparr> key = ''XRP'', label = ''XRP'' \<rparr>,
      \<lparr> key = ''ALL'', label = ''All'' \<rparr>]"

text \<open>
  What can happen to the state: a click on one of the asset buttons, a click on one of
  the category buttons, typing in the search box, and a change of the bot.
\<close>

inductive reachable :: "DashState \<Rightarrow> bool" where
  mount: "reachable (initialState b)"
| clickAsset: "reachable s \<Longrightarrow> a \<in> set (assetFilters s) \<Longrightarrow> reachable (s\<lparr>selectedAsset := key a\<rparr>)"
| clickCategory: "reachable s \<Longrightarrow> cat \<in> set categories \<Longrightarrow> reachable (s\<lparr>selectedCategory := cat\<rparr>)"
| typeSearch: "reachable s \<Longrightarrow> reachable (s\<lparr>searchText := t\<rparr>)"
| botChanged: "reachable s \<Longrightarrow> reachable (s\<lparr>botSymbol := b\<rparr>)"

subsection \<open>Rendered lists\<close>

text \<open>
  The reason badges of an article card: \<open>None\<close> where the conditional renders
  \<open>null\<close>, else the texts of the badges in order.
\<close>

definition reasonBadges :: "NewsArticle \<Rightarrow> string list option" where
  "reasonBadges article =
     (case reasons article of
        None \<Rightarrow> None
      | Some rs \<Rightarrow> if length rs \<noteq> 0 then Some (take 4 rs) else None)"

text \<open>The entries of the High Impact Alerts panel; \<open>None\<close> is a query without data yet.\<close>

record AlertEntry =
  entryKey :: string
  href :: string
  sourceText :: string
  timeAgo :: string
  titleText :: string
  impactBadge :: rat
  labelBadge :: Label

definition alertEntry :: "(string \<Rightarrow> int option) \<Rightarrow> int \<Rightarrow> NewsArticle \<Rightarrow> AlertEntry" where
  "alertEntry getTime now a =
     \<lparr> entryKey = id' a, href = url a, sourceText = source a,
       timeAgo = formatTimeAgo getTime now (timestamp a), titleText = title a,
       impactBadge = impactScore a, labelBadge = impactLabel a \<rparr>"

definition alertsPanel ::
  "(string \<Rightarrow> int option) \<Rightarrow> int \<Rightarrow> NewsAlerts option \<Rightarrow> AlertEntry list" where
  "alertsPanel getTime now data =
     map (alertEntry getTime now)
       (take 6 (case data of None \<Rightarrow> [] | Some r \<Rightarrow> alerts r))"

subsection \<open>Sentiment bar\<close>

text \<open>
  A JavaScript number is an IEEE 754 double. A finite double is modelled as the rational
  it denotes, and an arithmetic operation as the exact operation followed by \<open>fl\<close>,
  rounding to the nearest double, a tie to the one with an even significand: 53
  significant bits, the exponent not below -1022. Overflow to Infinity is left out; no
  quantity below exceeds 100. \<open>ilog2 x\<close> is the exponent of a positive \<open>x\<close>, the
  integer \<open>e\<close> with \<open>2 powi e \<le> x < 2 powi (e + 1)\<close>.
\<close>

definition roundEven :: "rat \<Rightarrow> int" where
  "roundEven x =
     (let f = \<lfloor>x\<rfloor>; d = x - of_int f
      in if d < 1 / 2 then f
         else if 1 / 2 < d then f + 1
         else if even f then f else f + 1)"

definition ilog2 :: "rat \<Rightarrow> int" where
  "ilog2 x =
     (let e = bitlen (fst (quotient_of x)) - bitlen (snd (quotient_of x))
      in if 2 powi e \<le> x then e else e - 1)"

definition fl :: "rat \<Rightarrow> rat" where
  "fl x =
     (if x = 0 then 0
      else (let e = max (ilog2 \<bar>x\<bar>) (- 1022);
                ulp = 2 powi (e - 52)
            in sgn x * of_int (roundEven (\<bar>x\<bar> / ulp)) * ulp))"

text \<open>
  The widths of the three segments of the sentiment bar, in per cent, in the order of
  the markup: bullish, neutral, bearish. A count and a length are whole numbers below
  \<open>2 ^ 53\<close>, which are doubles.
\<close>

record BarWidths =
  bullishWidth :: rat
  neutralWidth :: rat
  bearishWidth :: rat

definition sentimentBar :: "NewsArticle list \<Rightarrow> BarWidths" where
  "sentimentBar news =
     \<lparr> bullishWidth =
         (if length news > 0
          then fl (fl (of_nat (bullishCount news) / of_nat (length news)) * 100) else 0),
       neutralWidth =
         (if length news > 0
          then fl (fl (of_nat (neutralCount news) / of_nat (length news)) * 100) else 0),
       bearishWidth =
         (if length news > 0
          then fl (fl (of_nat (bearishCount news) / of_nat (length news)) * 100) else 0) \<rparr>"

subsection \<open>Reading a request URL\<close>

text \<open>
  What a URL carries is what the receiving side reads from it: the path before the
  first \<open>?\<close>, and the name-value pairs that the application/x-www-form-urlencoded
  parser finds after it. The parser splits at \<open>&\<close>, skips empty pieces, splits each
  piece at its first \<open>=\<close>, turns \<open>+\<close> into a space and decodes \<open>%\<close> followed by
  two hexadecimal digits.
\<close>

definition hexVal :: "char \<Rightarrow> nat option" where
  "hexVal c =
     (let n = (of_char c :: nat)
      in if 48 \<le> n \<and> n \<le> 57 then Some (n - 48)
         else if 65 \<le> n \<and> n \<le> 70 then Some (n - 55)
         else if 97 \<le> n \<and> n \<le> 102 then Some (n - 87)
         else None)"

fun urldecode :: "string \<Rightarrow> string" where
  "urldecode [] = []"
| "urldecode (c # cs) =
     (if c = CHR ''+'' then CHR '' '' # urldecode cs
      else if c = CHR ''%'' then
        (case cs of
           h1 # h2 # rest \<Rightarrow>
             (case (hexVal h1, hexVal h2) of
                (Some a, Some b) \<Rightarrow> char_of (16 * a + b) # urldecode rest
              | _ \<Rightarrow> c # urldecode cs)
         | _ \<Rightarrow> c # urldecode cs)
      else c # urldecode cs)"

definition parseQuery :: "string \<Rightarrow> (string \<times> string) list" where
  "parseQuery q =
     map (\<lambda>seg. (urldecode (takeWhile (\<lambda>c. c \<noteq> CHR ''='') seg),
                 urldecode (drop 1 (dropWhile (\<lambda>c. c \<noteq> CHR ''='') seg))))
       (filter (\<lambda>seg. seg \<noteq> []) (splitOn CHR ''&'' q))"

definition urlPath :: "string \<Rightarrow> string" where
  "urlPath u = takeWhile (\<lambda>c. c \<noteq> CHR ''?'') u"

definition urlQuery :: "string \<Rightarrow> string" where
  "urlQuery u = drop 1 (dropWhile (\<lambda>c. c \<noteq> CHR ''?'') u)"

definition searchParams :: "string \<Rightarrow> (string \<times> string) list" where
  "searchParams u = parseQuery (urlQuery u)"

text \<open>The category set of the data model, as the specification lists it.\<close>

definition specCategories :: "string set" where
  "specCategories =
     {''market'', ''regulation'', ''technology'', ''defi'', ''security'', ''adoption'', ''other''}"


subsection \<open>Auxiliary definitions\<close>

text \<open>The serialisation of one name-value pair.\<close>

definition pairText :: "string \<times> string \<Rightarrow> string" where
  "pairText p = urlencode (fst p) @ ''='' @ urlencode (snd p)"

text \<open>
  An article to evaluate the definitions on: the scenario article of the specification,
  with five reason tags.
\<close>

definition article0 :: NewsArticle where
  "article0 = \<lparr> id' = ''a1'', title = ''Exchange X halts withdrawals'', summary = [],
       sentiment = Bearish, category = ''security'', assets = [''BTC''],
       timestamp = ''2026-01-01T00:00:00Z'', source = ''wire'', importance = High,
       url = ''https://example.org/a1'', impactScore = 85, volatilityScore = 90,
       biasScore = - (6 / 10), reasons = Some [''r1'', ''r2'', ''r3'', ''r4'', ''r5''] \<rparr>"


section \<open>Properties\<close>

subsection \<open>Query strings are read back as written\<close>

lemma hexVal_hexDigit: "n < 16 \<Longrightarrow> hexVal (hexDigit n) = Some n"
  by (auto simp add: hexVal_def hexDigit_def Let_def)

lemma hexDigit_plain:
  assumes "n < 16"
  shows "hexDigit n \<noteq> CHR ''&'' \<and> hexDigit n \<noteq> CHR ''=''"
proof -
  have "(of_char (hexDigit n) :: nat) = (if n < 10 then 48 + n else 55 + n)"
    using assms by (simp add: hexDigit_def)
  then have "(of_char (hexDigit n) :: nat) \<noteq> 38 \<and> (of_char (hexDigit n) :: nat) \<noteq> 61"
    using assms by (simp split: if_splits)
  then show ?thesis by auto
qed

lemma unreserved_plain:
  "unreserved c \<Longrightarrow> c \<noteq> CHR ''&'' \<and> c \<noteq> CHR ''='' \<and> c \<noteq> CHR ''+'' \<and> c \<noteq> CHR ''%''"
  by (auto simp add: unreserved_def Let_def)

lemma urldecode_byte: "urldecode (urlencodeByte c @ t) = c # urldecode t"
proof -
  have "(of_char c :: nat) < 16 * 16"
    using nat_of_char_less_256 [of c] by simp
  then have d: "(of_char c :: nat) div 16 < 16"
    by (rule less_mult_imp_div_less)
  have m: "(of_char c :: nat) mod 16 < 16"
    by simp
  show ?thesis
  proof (cases "unreserved c")
    case True
    then show ?thesis using unreserved_plain [of c] by (simp add: urlencodeByte_def)
  next
    case False
    then show ?thesis
      by (simp add: urlencodeByte_def hexVal_hexDigit [OF d] hexVal_hexDigit [OF m])
  qed
qed

lemma urldecode_urlencode_append: "urldecode (urlencode s @ t) = s @ urldecode t"
  by (induction s) (simp_all add: urlencode_def urldecode_byte)

lemma urldecode_urlencode: "urldecode (urlencode s) = s"
  using urldecode_urlencode_append [of s "[]"] by simp

lemma urlencodeByte_plain:
  "CHR ''&'' \<notin> set (urlencodeByte c) \<and> CHR ''='' \<notin> set (urlencodeByte c)"
proof -
  have "(of_char c :: nat) < 16 * 16"
    using nat_of_char_less_256 [of c] by simp
  then have d: "(of_char c :: nat) div 16 < 16"
    by (rule less_mult_imp_div_less)
  have m: "(of_char c :: nat) mod 16 < 16"
    by simp
  show ?thesis
    using unreserved_plain [of c] hexDigit_plain [OF d] hexDigit_plain [OF m]
    by (auto simp add: urlencodeByte_def)
qed

lemma urlencode_plain: "CHR ''&'' \<notin> set (urlencode s) \<and> CHR ''='' \<notin> set (urlencode s)"
  by (induction s) (simp_all add: urlencode_def urlencodeByte_plain)

lemma splitOn_none: "c \<notin> set a \<Longrightarrow> splitOn c a = [a]"
  by (induction a) auto

lemma splitOn_append: "c \<notin> set a \<Longrightarrow> splitOn c (a @ c # b) = a # splitOn c b"
  by (induction a) auto

lemma pairText_plain: "CHR ''&'' \<notin> set (pairText p)" and pairText_nonempty: "pairText p \<noteq> []"
  using urlencode_plain [of "fst p"] urlencode_plain [of "snd p"] by (simp_all add: pairText_def)

lemma pairText_read:
  "urldecode (takeWhile (\<lambda>c. c \<noteq> CHR ''='') (pairText p)) = fst p"
  "urldecode (drop 1 (dropWhile (\<lambda>c. c \<noteq> CHR ''='') (pairText p))) = snd p"
proof -
  have k: "\<forall>c \<in> set (urlencode (fst p)). c \<noteq> CHR ''=''"
    using urlencode_plain [of "fst p"] by auto
  have t: "takeWhile (\<lambda>c. c \<noteq> CHR ''='') (pairText p) = urlencode (fst p)"
    using k by (simp add: pairText_def)
  show "urldecode (takeWhile (\<lambda>c. c \<noteq> CHR ''='') (pairText p)) = fst p"
    by (simp add: t urldecode_urlencode)
  have d: "dropWhile (\<lambda>c. c \<noteq> CHR ''='') (pairText p) = CHR ''='' # urlencode (snd p)"
    using k by (simp add: pairText_def)
  show "urldecode (drop 1 (dropWhile (\<lambda>c. c \<noteq> CHR ''='') (pairText p))) = snd p"
    by (simp add: d urldecode_urlencode)
qed

lemma toString_Cons: "toString (p # ps) = (if ps = [] then pairText p else pairText p @ CHR ''&'' # toString ps)"
  by (cases p; cases ps) (simp_all add: pairText_def)

lemma parseQuery_toString: "parseQuery (toString ps) = ps"
proof (induction ps)
  case Nil
  show ?case by (simp add: parseQuery_def)
next
  case (Cons p ps)
  show ?case
  proof (cases "ps = []")
    case True
    then show ?thesis
      using pairText_read [of p]
      by (simp add: toString_Cons parseQuery_def splitOn_none [OF pairText_plain] pairText_nonempty)
  next
    case False
    then show ?thesis
      using pairText_read [of p] Cons.IH
      by (simp add: toString_Cons parseQuery_def splitOn_append [OF pairText_plain] pairText_nonempty)
  qed
qed

lemma searchParams_read: "searchParams (path @ CHR ''?'' # toString ps) = ps" if "CHR ''?'' \<notin> set path"
proof -
  have "dropWhile (\<lambda>c. c \<noteq> CHR ''?'') (path @ CHR ''?'' # toString ps) = CHR ''?'' # toString ps"
    using that by (induction path) auto
  then show ?thesis
    by (simp add: searchParams_def urlQuery_def parseQuery_toString)
qed

lemma urlPath_read: "urlPath (path @ CHR ''?'' # q) = path" if "CHR ''?'' \<notin> set path"
  using that unfolding urlPath_def by (induction path) auto

subsection \<open>Request URLs\<close>

lemma newsUrl_shape:
  "newsUrl s = ''/api/news'' @ CHR ''?'' #
     toString ([(''asset'', selectedAsset s), (''category'', selectedCategory s),
                (''hours'', ''48''), (''limit'', ''80'')] @
               (if trim (searchText s) = [] then [] else [(''q'', trim (searchText s))]))"
  by (simp add: newsUrl_def Let_def)

lemma briefingUrl_shape:
  "briefingUrl s = ''/api/news/briefing'' @ CHR ''?'' #
     toString [(''asset'', selectedAsset s), (''hours'', ''24'')]"
  by (simp add: briefingUrl_def Let_def)

lemma alertsUrl_shape:
  "alertsUrl s = ''/api/news/alerts'' @ CHR ''?'' #
     toString [(''asset'', selectedAsset s), (''minutes'', ''180''), (''minImpact'', ''75'')]"
  by (simp add: alertsUrl_def Let_def)

lemma newsUrl_params:
  "searchParams (newsUrl s) =
     [(''asset'', selectedAsset s), (''category'', selectedCategory s),
      (''hours'', ''48''), (''limit'', ''80'')] @
     (if trim (searchText s) = [] then [] else [(''q'', trim (searchText s))])"
  unfolding newsUrl_shape by (rule searchParams_read) simp

lemma briefingUrl_params:
  "searchParams (briefingUrl s) = [(''asset'', selectedAsset s), (''hours'', ''24'')]"
  unfolding briefingUrl_shape by (rule searchParams_read) simp

lemma alertsUrl_params:
  "searchParams (alertsUrl s) =
     [(''asset'', selectedAsset s), (''minutes'', ''180''), (''minImpact'', ''75'')]"
  unfolding alertsUrl_shape by (rule searchParams_read) simp

lemma url_paths:
  "urlPath (newsUrl s) = ''/api/news''"
  "urlPath (briefingUrl s) = ''/api/news/briefing''"
  "urlPath (alertsUrl s) = ''/api/news/alerts''"
  unfolding newsUrl_shape briefingUrl_shape alertsUrl_shape
  by (rule urlPath_read, simp)+

text \<open>
  Claim C3. For every state of the selected asset, category and search text, the news
  request URL carries exactly the parameters asset, category, hours = 48 and limit = 80,
  followed by q exactly when the trimmed search text is not empty; the briefing URL
  carries exactly asset and hours = 24; the alerts URL carries exactly asset,
  minutes = 180 and minImpact = 75.
\<close>

theorem request_url_parameters:
  "urlPath (newsUrl s) = ''/api/news'' \<and>
   searchParams (newsUrl s) =
     [(''asset'', selectedAsset s), (''category'', selectedCategory s),
      (''hours'', ''48''), (''limit'', ''80'')] @
     (if trim (searchText s) = [] then [] else [(''q'', trim (searchText s))]) \<and>
   urlPath (briefingUrl s) = ''/api/news/briefing'' \<and>
   searchParams (briefingUrl s) = [(''asset'', selectedAsset s), (''hours'', ''24'')] \<and>
   urlPath (alertsUrl s) = ''/api/news/alerts'' \<and>
   searchParams (alertsUrl s) =
     [(''asset'', selectedAsset s), (''minutes'', ''180''), (''minImpact'', ''75'')]"
  by (simp only: url_paths newsUrl_params briefingUrl_params alertsUrl_params simp_thms)

lemma trim_example: "trim '' eth etf  '' = ''eth etf''"
  by code_simp

lemma trim_blank: "trim ''   '' = []"
  by code_simp

lemma trim_empty: "trim [] = []"
  by code_simp

theorem request_url_parameters_witness:
  "searchParams (newsUrl \<lparr> selectedCategory = ''defi'', selectedAsset = ''ETH'',
       searchText = '' eth etf  '', botSymbol = None \<rparr>) =
     [(''asset'', ''ETH''), (''category'', ''defi''), (''hours'', ''48''), (''limit'', ''80''),
      (''q'', ''eth etf'')] \<and>
   searchParams (newsUrl \<lparr> selectedCategory = ''defi'', selectedAsset = ''ETH'',
       searchText = ''   '', botSymbol = None \<rparr>) =
     [(''asset'', ''ETH''), (''category'', ''defi''), (''hours'', ''48''), (''limit'', ''80'')]"
  using request_url_parameters [of "\<lparr> selectedCategory = ''defi'', selectedAsset = ''ETH'',
       searchText = '' eth etf  '', botSymbol = None \<rparr>"]
    request_url_parameters [of "\<lparr> selectedCategory = ''defi'', selectedAsset = ''ETH'',
       searchText = ''   '', botSymbol = None \<rparr>"]
  by (simp add: trim_example trim_blank)

lemma newsUrl_text:
  "newsUrl \<lparr> selectedCategory = ''defi'', selectedAsset = ''ETH'',
       searchText = '' eth etf  '', botSymbol = None \<rparr> =
   ''/api/news?asset=ETH&category=defi&hours=48&limit=80&q=eth+etf''"
  by code_simp


lemma reachable_asset:
  "reachable s \<Longrightarrow> selectedAsset s \<in> {''FOR_YOU'', ''BTC'', ''ETH'', ''XRP'', ''ALL''}"
proof (induction rule: reachable.induct)
  case (mount b)
  show ?case by (simp add: initialState_def)
next
  case (clickAsset s a)
  then show ?case by (auto simp add: assetFilters_def)
qed simp_all

text \<open>
  Claim C1, as amended. Every request URL carries the selected asset key unchanged as
  its asset parameter. In every reachable state the key is one of FOR_YOU, BTC, ETH, XRP
  and ALL, and it is FOR_YOU when the component mounts; no URL depends on the symbol of
  the bot, whose base ticker only appears in the label of the first asset button.
\<close>

theorem asset_parameter_is_selected_key:
  assumes "reachable s"
  shows "map_of (searchParams (newsUrl s)) ''asset'' = Some (selectedAsset s) \<and>
         map_of (searchParams (briefingUrl s)) ''asset'' = Some (selectedAsset s) \<and>
         map_of (searchParams (alertsUrl s)) ''asset'' = Some (selectedAsset s) \<and>
         selectedAsset s \<in> {''FOR_YOU'', ''BTC'', ''ETH'', ''XRP'', ''ALL''} \<and>
         selectedAsset (initialState b) = ''FOR_YOU'' \<and>
         newsUrl (s\<lparr>botSymbol := b\<rparr>) = newsUrl s \<and>
         briefingUrl (s\<lparr>botSymbol := b\<rparr>) = briefingUrl s \<and>
         alertsUrl (s\<lparr>botSymbol := b\<rparr>) = alertsUrl s"
proof -
  have "newsUrl (s\<lparr>botSymbol := b\<rparr>) = newsUrl s"
    by (simp add: newsUrl_def)
  moreover have "briefingUrl (s\<lparr>botSymbol := b\<rparr>) = briefingUrl s"
    by (simp add: briefingUrl_def)
  moreover have "alertsUrl (s\<lparr>botSymbol := b\<rparr>) = alertsUrl s"
    by (simp add: alertsUrl_def)
  moreover have "selectedAsset (initialState b) = ''FOR_YOU''"
    by (simp add: initialState_def)
  ultimately show ?thesis
    using reachable_asset [OF assms]
    by (simp add: newsUrl_params briefingUrl_params alertsUrl_params)
qed

theorem asset_parameter_is_selected_key_witness:
  "map_of (searchParams (newsUrl ((initialState (Some ''ETH/USDT''))\<lparr>selectedAsset := ''ALL''\<rparr>)))
     ''asset'' = Some ''ALL''"
proof -
  have "\<lparr> key = ''ALL'', label = ''All'' \<rparr> \<in> set (assetFilters (initialState (Some ''ETH/USDT'')))"
    by (simp add: assetFilters_def)
  from reachable.clickAsset [OF reachable.mount this]
  have "reachable ((initialState (Some ''ETH/USDT''))\<lparr>selectedAsset := ''ALL''\<rparr>)"
    by simp
  from asset_parameter_is_selected_key [OF this]
  show ?thesis by simp
qed

text \<open>
  Claim C1 as stated fails: with the active pair ETH/USDT, the URLs built at mount carry
  FOR_YOU as the asset, not ETH.
\<close>

theorem for_you_sent_unresolved:
  "reachable (initialState (Some ''ETH/USDT'')) \<and>
   botBaseAsset (initialState (Some ''ETH/USDT'')) = ''ETH'' \<and>
   newsUrl (initialState (Some ''ETH/USDT'')) =
     ''/api/news?asset=FOR_YOU&category=all&hours=48&limit=80'' \<and>
   briefingUrl (initialState (Some ''ETH/USDT'')) = ''/api/news/briefing?asset=FOR_YOU&hours=24'' \<and>
   alertsUrl (initialState (Some ''ETH/USDT'')) =
     ''/api/news/alerts?asset=FOR_YOU&minutes=180&minImpact=75'' \<and>
   searchParams (newsUrl (initialState (Some ''ETH/USDT''))) =
     [(''asset'', ''FOR_YOU''), (''category'', ''all''), (''hours'', ''48''), (''limit'', ''80'')]"
proof -
  have "reachable (initialState (Some ''ETH/USDT''))"
    by (rule reachable.mount)
  moreover have "botBaseAsset (initialState (Some ''ETH/USDT'')) = ''ETH''"
    by code_simp
  moreover have "newsUrl (initialState (Some ''ETH/USDT'')) =
     ''/api/news?asset=FOR_YOU&category=all&hours=48&limit=80''"
    by code_simp
  moreover have "briefingUrl (initialState (Some ''ETH/USDT'')) =
     ''/api/news/briefing?asset=FOR_YOU&hours=24''"
    by code_simp
  moreover have "alertsUrl (initialState (Some ''ETH/USDT'')) =
     ''/api/news/alerts?asset=FOR_YOU&minutes=180&minImpact=75''"
    by code_simp
  moreover have "searchParams (newsUrl (initialState (Some ''ETH/USDT''))) =
     [(''asset'', ''FOR_YOU''), (''category'', ''all''), (''hours'', ''48''), (''limit'', ''80'')]"
    by (simp add: newsUrl_params initialState_def trim_empty)
  ultimately show ?thesis by (simp only: simp_thms)
qed


text \<open>
  Claim C2, as amended. The category filter values offered are exactly \<open>all\<close> and the
  members of the category set other than \<open>other\<close>, each once.
\<close>

theorem category_filters_offered:
  "set categories = insert ''all'' (specCategories - {''other''}) \<and> distinct categories \<and>
   length categories = 7"
  by (auto simp add: categories_def specCategories_def)

text \<open>
  Claim C2 as stated fails: \<open>other\<close> is a member of the category set and is not among
  the values offered.
\<close>

theorem category_other_not_offered:
  "''other'' \<in> insert ''all'' specCategories \<and> ''other'' \<notin> set categories"
  by (simp add: categories_def specCategories_def)

subsection \<open>Rendering\<close>

text \<open>
  Claim C4. For every fetched article list, the Bullish, Bearish and Neutral cards show
  the number of articles (positions of the list) whose sentiment is bullish, bearish and
  neutral.
\<close>

theorem stat_cards_tallies:
  "bullishCard (statCards news) = card {i. i < length news \<and> sentiment (news ! i) = Bullish} \<and>
   bearishCard (statCards news) = card {i. i < length news \<and> sentiment (news ! i) = Bearish} \<and>
   neutralCard (statCards news) = card {i. i < length news \<and> sentiment (news ! i) = Neutral}"
  by (simp add: statCards_def bullishCount_def bearishCount_def neutralCount_def
      length_filter_conv_card)

theorem stat_cards_tallies_witness:
  "card {i. i < length [article0, article0\<lparr>sentiment := Bullish\<rparr>, article0\<lparr>sentiment := Neutral\<rparr>,
                        article0\<lparr>sentiment := Bullish\<rparr>] \<and>
            sentiment ([article0, article0\<lparr>sentiment := Bullish\<rparr>, article0\<lparr>sentiment := Neutral\<rparr>,
                        article0\<lparr>sentiment := Bullish\<rparr>] ! i) = Bullish} = 2 \<and>
   bearishCard (statCards [article0, article0\<lparr>sentiment := Bullish\<rparr>,
      article0\<lparr>sentiment := Neutral\<rparr>, article0\<lparr>sentiment := Bullish\<rparr>]) = 1 \<and>
   neutralCard (statCards [article0, article0\<lparr>sentiment := Bullish\<rparr>,
      article0\<lparr>sentiment := Neutral\<rparr>, article0\<lparr>sentiment := Bullish\<rparr>]) = 1"
  using stat_cards_tallies [of "[article0, article0\<lparr>sentiment := Bullish\<rparr>,
      article0\<lparr>sentiment := Neutral\<rparr>, article0\<lparr>sentiment := Bullish\<rparr>]"]
  by (simp add: statCards_def bullishCount_def bearishCount_def neutralCount_def article0_def)

text \<open>
  Claim C8. The label is Volatility spike exactly when the volatility score is at least
  70; otherwise Risk-on exactly when the bias score is at least 0.25; otherwise Risk-off
  exactly when the bias score is at most -0.25; otherwise Mixed. Two articles with the
  same volatility and bias scores get the same label, whatever their other fields.
\<close>

theorem impactLabel_text:
  "(text' (impactLabel a) = ''Volatility spike'' \<longleftrightarrow> volatilityScore a \<ge> 70) \<and>
   (text' (impactLabel a) = ''Risk-on'' \<longleftrightarrow> \<not> volatilityScore a \<ge> 70 \<and> biasScore a \<ge> 1 / 4) \<and>
   (text' (impactLabel a) = ''Risk-off'' \<longleftrightarrow>
      \<not> volatilityScore a \<ge> 70 \<and> \<not> biasScore a \<ge> 1 / 4 \<and> biasScore a \<le> - (1 / 4)) \<and>
   (text' (impactLabel a) = ''Mixed'' \<longleftrightarrow>
      \<not> volatilityScore a \<ge> 70 \<and> \<not> biasScore a \<ge> 1 / 4 \<and> \<not> biasScore a \<le> - (1 / 4)) \<and>
   (\<forall>b. volatilityScore b = volatilityScore a \<and> biasScore b = biasScore a \<longrightarrow>
      impactLabel b = impactLabel a)"
  by (auto simp add: impactLabel_def)

theorem impactLabel_text_witness:
  "text' (impactLabel article0) = ''Volatility spike'' \<and>
   impactLabel (article0\<lparr>impactScore := 5, sentiment := Bullish\<rparr>) = impactLabel article0"
proof -
  have "volatilityScore article0 \<ge> 70"
    by (simp add: article0_def)
  moreover have "volatilityScore (article0\<lparr>impactScore := 5, sentiment := Bullish\<rparr>) = volatilityScore article0 \<and>
      biasScore (article0\<lparr>impactScore := 5, sentiment := Bullish\<rparr>) = biasScore article0"
    by simp
  ultimately show ?thesis
    using impactLabel_text [of article0] by blast
qed

lemma floor_quotient: "0 < k \<Longrightarrow> \<lfloor>real_of_int m / real_of_int k\<rfloor> = m div k"
  by (simp add: floor_divide_of_int_eq)

text \<open>
  Claim C5. For a publication time not later than now, \<open>formatTimeAgo\<close> returns
  Just now under one whole minute, \<open>Nm ago\<close> with N the whole minutes elapsed when
  N is from 1 to 59, \<open>Nh ago\<close> with N the whole hours elapsed when N is from 1 to 23,
  and \<open>Nd ago\<close> with N the whole days elapsed otherwise. The time it is given is the
  article's \<open>timestamp\<close> field.
\<close>

theorem formatTimeAgo_past:
  assumes "getTime ts = Some t" and "t \<le> now"
  shows "formatTimeAgo getTime now ts =
     (let mins = \<lfloor>real_of_int (now - t) / 60000\<rfloor>;
          hours = \<lfloor>real_of_int (now - t) / 3600000\<rfloor>;
          days = \<lfloor>real_of_int (now - t) / 86400000\<rfloor>
      in if mins < 1 then ''Just now''
         else if 1 \<le> mins \<and> mins < 60 then showInt mins @ ''m ago''
         else if 1 \<le> hours \<and> hours < 24 then showInt hours @ ''h ago''
         else showInt days @ ''d ago'') \<and>
     timeAgo (alertEntry getTime now a) = formatTimeAgo getTime now (timestamp a)"
proof -
  have m: "\<lfloor>real_of_int (now - t) / 60000\<rfloor> = (now - t) div 60000"
    using floor_quotient [of 60000 "now - t"] by simp
  have h: "\<lfloor>real_of_int (now - t) / 3600000\<rfloor> = (now - t) div 60000 div 60"
    using floor_quotient [of 3600000 "now - t"] by (simp add: div_mult2_eq)
  have d: "\<lfloor>real_of_int (now - t) / 86400000\<rfloor> = (now - t) div 60000 div 60 div 24"
    using floor_quotient [of 86400000 "now - t"] by (simp add: div_mult2_eq)
  have "60 \<le> (now - t) div 60000 \<Longrightarrow> 1 \<le> (now - t) div 60000 div 60"
    by (simp add: pos_imp_zdiv_pos_iff)
  then show ?thesis
    unfolding m h d using assms(1) by (auto simp add: formatTimeAgo_def alertEntry_def Let_def)
qed

lemma showInt_examples: "showInt 5 = ''5''" "showInt 2 = ''2''" "showInt 3 = ''3''" "showInt 59 = ''59''"
  by code_simp+

theorem formatTimeAgo_past_witness:
  "formatTimeAgo (\<lambda>_. Some 1000) 31000 ''2026-01-01T00:00:00Z'' = ''Just now'' \<and>
   formatTimeAgo (\<lambda>_. Some 1000) 3600999 ''2026-01-01T00:00:00Z'' = ''59m ago'' \<and>
   formatTimeAgo (\<lambda>_. Some 1000) 7201000 ''2026-01-01T00:00:00Z'' = ''2h ago'' \<and>
   formatTimeAgo (\<lambda>_. Some 1000) 259201000 ''2026-01-01T00:00:00Z'' = ''3d ago''"
  using formatTimeAgo_past [of "\<lambda>_. Some 1000" "''2026-01-01T00:00:00Z''" 1000 31000]
    formatTimeAgo_past [of "\<lambda>_. Some 1000" "''2026-01-01T00:00:00Z''" 1000 3600999]
    formatTimeAgo_past [of "\<lambda>_. Some 1000" "''2026-01-01T00:00:00Z''" 1000 7201000]
    formatTimeAgo_past [of "\<lambda>_. Some 1000" "''2026-01-01T00:00:00Z''" 1000 259201000]
  by (simp add: showInt_examples)

text \<open>
  Claim C9. For a publication time strictly later than now, \<open>formatTimeAgo\<close>
  returns Just now.
\<close>

theorem formatTimeAgo_future:
  assumes "getTime ts = Some t" and "now < t"
  shows "formatTimeAgo getTime now ts = ''Just now''"
proof -
  have "now - t < 0" using assms(2) by simp
  then have "(now - t) div 60000 < 0"
    by (simp add: neg_imp_zdiv_neg_iff)
  then show ?thesis using assms(1) by (simp add: formatTimeAgo_def Let_def)
qed

theorem formatTimeAgo_future_witness:
  "formatTimeAgo (\<lambda>_. Some 86400000) 0 ''2026-01-02T00:00:00Z'' = ''Just now'' \<and>
   formatTimeAgo (\<lambda>_. Some 1) 0 ''2026-01-01T00:00:00.001Z'' = ''Just now''"
  using formatTimeAgo_future [of "\<lambda>_. Some 86400000" "''2026-01-02T00:00:00Z''" 86400000 0]
    formatTimeAgo_future [of "\<lambda>_. Some 1" "''2026-01-01T00:00:00.001Z''" 1 0]
  by simp

text \<open>
  Claim C6. An article card shows the first four entries of the reasons list at most, in
  their order; with an empty or absent list it shows no reason badge.
\<close>

theorem reason_badges_first_four:
  "(let rs = (case reasons a of None \<Rightarrow> [] | Some r \<Rightarrow> r);
        shown = (case reasonBadges a of None \<Rightarrow> [] | Some b \<Rightarrow> b)
    in shown = take 4 rs \<and> length shown = min 4 (length rs) \<and>
       (\<forall>i < length shown. shown ! i = rs ! i) \<and>
       (reasonBadges a = None \<longleftrightarrow> rs = []))"
  by (auto simp add: reasonBadges_def Let_def split: option.splits)

theorem reason_badges_first_four_witness:
  "reasonBadges article0 = Some [''r1'', ''r2'', ''r3'', ''r4''] \<and>
   reasonBadges (article0\<lparr>reasons := Some []\<rparr>) = None \<and>
   reasonBadges (article0\<lparr>reasons := None\<rparr>) = None"
  using reason_badges_first_four [of article0]
    reason_badges_first_four [of "article0\<lparr>reasons := Some []\<rparr>"]
    reason_badges_first_four [of "article0\<lparr>reasons := None\<rparr>"]
  by (auto simp add: article0_def Let_def split: option.splits)

lemma take_min_length: "take (min k (length xs)) xs = take k xs"
  by (simp add: min_def)

text \<open>
  Claim C7. The High Impact Alerts panel shows the first min(6, n) of the n alerts of the
  response, in the order of the response; the request asks for asset, minutes and
  minImpact only, with no limit.
\<close>

theorem alerts_panel_first_six:
  "(let as = (case data of None \<Rightarrow> [] | Some r \<Rightarrow> alerts r);
        panel = alertsPanel getTime now data
    in panel = map (alertEntry getTime now) (take (min 6 (length as)) as) \<and>
       length panel = min 6 (length as) \<and>
       (\<forall>i < min 6 (length as). panel ! i = alertEntry getTime now (as ! i))) \<and>
   searchParams (alertsUrl s) =
     [(''asset'', selectedAsset s), (''minutes'', ''180''), (''minImpact'', ''75'')]"
  by (auto simp add: alertsPanel_def Let_def alertsUrl_params take_min_length split: option.splits)


theorem alerts_panel_first_six_witness:
  "map entryKey (alertsPanel (\<lambda>_. None) 0
      (Some \<lparr> generatedAt = [], minutes = 180, minImpact = 75,
         alerts = map (\<lambda>k. article0\<lparr>id' := k\<rparr>) [''n1'', ''n2'', ''n3'', ''n4'', ''n5'', ''n6'', ''n7'', ''n8''] \<rparr>)) =
     [''n1'', ''n2'', ''n3'', ''n4'', ''n5'', ''n6''] \<and>
   alertsPanel (\<lambda>_. None) 0 None = []"
  using alerts_panel_first_six [of "Some \<lparr> generatedAt = [], minutes = 180, minImpact = 75,
         alerts = map (\<lambda>k. article0\<lparr>id' := k\<rparr>) [''n1'', ''n2'', ''n3'', ''n4'', ''n5'', ''n6'', ''n7'', ''n8''] \<rparr>"
         "\<lambda>_. None" 0]
    alerts_panel_first_six [of None "\<lambda>_. None" 0]
  by (simp add: Let_def alertEntry_def)

subsection \<open>Sentiment bar widths\<close>

lemma ilog2_bounds:
  assumes "0 < x"
  shows "2 powi (ilog2 x) \<le> x \<and> x < 2 powi (ilog2 x + 1)"
proof -
  obtain p q where pq: "quotient_of x = (p, q)"
    by (cases "quotient_of x")
  have q: "0 < q" using quotient_of_denom_pos [OF pq] .
  have x: "x = of_int p / of_int q" using quotient_of_div [OF pq] .
  have p: "0 < p"
    using assms q unfolding x by (simp add: zero_less_divide_iff)
  define bp where "bp = bitlen p"
  define bq where "bq = bitlen q"
  have bp1: "1 \<le> bp" and bq1: "1 \<le> bq"
    using p q by (auto simp add: bp_def bq_def bitlen_alt_def)
  have "(2::int) ^ nat (bp - 1) \<le> p" "p < 2 ^ nat bp"
    using bitlen_bounds [OF p] by (simp_all add: bp_def)
  then have "rat_of_int (2 ^ nat (bp - 1)) \<le> of_int p" "rat_of_int p < of_int (2 ^ nat bp)"
    by (simp_all only: of_int_le_iff of_int_less_iff)
  then have pl: "2 powi (bp - 1) \<le> rat_of_int p" and pu: "rat_of_int p < 2 powi bp"
    using bp1 by (simp_all add: power_int_def)
  have "(2::int) ^ nat (bq - 1) \<le> q" "q < 2 ^ nat bq"
    using bitlen_bounds [OF q] by (simp_all add: bq_def)
  then have "rat_of_int (2 ^ nat (bq - 1)) \<le> of_int q" "rat_of_int q < of_int (2 ^ nat bq)"
    by (simp_all only: of_int_le_iff of_int_less_iff)
  then have ql: "2 powi (bq - 1) \<le> rat_of_int q" and qu: "rat_of_int q < 2 powi bq"
    using bq1 by (simp_all add: power_int_def)
  have qpos: "0 < rat_of_int q" using q by simp
  have lower: "2 powi (bp - bq - 1) \<le> x"
  proof -
    have "2 powi (bp - bq - 1) * rat_of_int q \<le> 2 powi (bp - bq - 1) * 2 powi bq"
      using qu by (intro mult_left_mono) simp_all
    also have "\<dots> = 2 powi (bp - 1)"
      by (simp flip: power_int_add)
    also have "\<dots> \<le> rat_of_int p" by (rule pl)
    finally show ?thesis
      unfolding x using qpos by (simp add: pos_le_divide_eq)
  qed
  have upper: "x < 2 powi (bp - bq + 1)"
  proof -
    have "rat_of_int p < 2 powi bp" by (rule pu)
    also have "\<dots> = 2 powi (bp - bq + 1) * 2 powi (bq - 1)"
      by (simp flip: power_int_add)
    also have "\<dots> \<le> 2 powi (bp - bq + 1) * rat_of_int q"
      using ql by (intro mult_left_mono) simp_all
    finally show ?thesis
      unfolding x using qpos by (simp add: pos_divide_less_eq)
  qed
  have e: "bitlen (fst (quotient_of x)) - bitlen (snd (quotient_of x)) = bp - bq"
    by (simp add: pq bp_def bq_def)
  show ?thesis
  proof (cases "2 powi (bp - bq) \<le> x")
    case True
    then show ?thesis using upper by (simp add: ilog2_def e Let_def)
  next
    case False
    then show ?thesis using lower by (simp add: ilog2_def e Let_def)
  qed
qed

lemma roundEven_error: "\<bar>of_int (roundEven y) - y\<bar> \<le> 1 / 2"
proof -
  have "of_int \<lfloor>y\<rfloor> \<le> y" "y < of_int \<lfloor>y\<rfloor> + 1"
    by linarith+
  then show ?thesis
    by (auto simp add: roundEven_def Let_def abs_le_iff)
qed

lemma fl_error:
  assumes "2 powi (- 1022) \<le> \<bar>x\<bar>"
  shows "\<bar>fl x - x\<bar> \<le> \<bar>x\<bar> / 2 ^ 53"
proof -
  have pos: "0 < \<bar>x\<bar>"
    using assms zero_less_power_int [of "2::rat" "- 1022"] by linarith
  then have nz: "x \<noteq> 0" by simp
  define e where "e = ilog2 \<bar>x\<bar>"
  have b: "2 powi e \<le> \<bar>x\<bar>" "\<bar>x\<bar> < 2 powi (e + 1)"
    using ilog2_bounds [OF pos] by (simp_all add: e_def)
  have "(2::rat) powi (- 1022) < 2 powi (e + 1)"
    using assms b(2) by linarith
  then have "- 1022 < e + 1"
    using power_int_increasing [of "e + 1" "- 1022" "2::rat"] by (cases "- 1022 < e + 1") auto
  then have m: "max e (- 1022) = e" by simp
  define u :: rat where "u = 2 powi (e - 52)"
  have upos: "0 < u" by (simp add: u_def)
  have flx: "fl x = sgn x * of_int (roundEven (\<bar>x\<bar> / u)) * u"
    using nz m by (simp add: fl_def Let_def e_def [symmetric] u_def)
  have xu: "x = sgn x * (\<bar>x\<bar> / u) * u"
    using upos by (simp add: sgn_mult_abs)
  have "fl x - x = sgn x * (of_int (roundEven (\<bar>x\<bar> / u)) - \<bar>x\<bar> / u) * u"
    unfolding flx by (subst (2) xu) (simp add: algebra_simps)
  then have "\<bar>fl x - x\<bar> = \<bar>of_int (roundEven (\<bar>x\<bar> / u)) - \<bar>x\<bar> / u\<bar> * u"
    using nz upos by (simp add: abs_mult abs_sgn_eq)
  also have "\<dots> \<le> (1 / 2) * u"
    using roundEven_error [of "\<bar>x\<bar> / u"] upos by (intro mult_right_mono) simp_all
  also have "(1 / 2) * u = 2 powi e / 2 ^ 53"
  proof -
    have "(2::rat) powi (e - 52 + 52) = 2 powi (e - 52) * 2 powi 52"
      by (rule power_int_add) simp
    then have "(2::rat) powi e = 2 powi (e - 52) * 2 ^ 52"
      by simp
    then show ?thesis by (simp add: u_def)
  qed
  also have "\<dots> \<le> \<bar>x\<bar> / 2 ^ 53"
    using b(1) by (simp add: divide_right_mono)
  finally show ?thesis .
qed

lemma fl_zero: "fl 0 = 0"
  by (simp add: fl_def)

lemma width_error:
  assumes n: "0 < n" "n < 2 ^ 32" and c: "c \<le> n"
  shows "\<bar>fl (fl (of_nat c / of_nat n) * 100) - 100 * (of_nat c / of_nat n)\<bar> \<le> 201 / 2 ^ 53"
proof (cases "c = 0")
  case True
  then show ?thesis by (simp add: fl_zero)
next
  case False
  define x :: rat where "x = of_nat c / of_nat n"
  define eps :: rat where "eps = 1 / 2 ^ 53"
  have eps: "0 < eps" "100 * eps \<le> 1"
    by (simp_all add: eps_def)
  have small: "(2::rat) powi (- 1022) \<le> 1 / 2 ^ 32"
    using power_int_increasing [of "- 1022" "- 32" "2::rat"] by (simp add: power_int_minus_divide)
  have npos: "0 < rat_of_nat n" using n(1) by simp
  have "rat_of_nat n \<le> 2 ^ 32"
    using n(2) by (metis less_imp_le of_nat_le_iff of_nat_numeral of_nat_power)
  then have "1 / 2 ^ 32 \<le> 1 / rat_of_nat n"
    using npos by (simp add: frac_le)
  also have "1 / rat_of_nat n \<le> x"
    using False npos by (simp add: x_def divide_right_mono)
  finally have xlow: "1 / 2 ^ 32 \<le> x" .
  have tiny: "(0::rat) < 1 / 2 ^ 32" by simp
  have xpos: "0 < x"
    using tiny xlow by (rule less_le_trans)
  have xle: "x \<le> 1"
    using c npos by (simp add: x_def)
  have "2 powi (- 1022) \<le> \<bar>x\<bar>"
    using small xlow xpos by linarith
  from fl_error [OF this] have e1: "\<bar>fl x - x\<bar> \<le> x * eps"
    using xpos by (simp add: eps_def)
  have xe: "x * eps \<le> eps"
    using xle eps(1) by (simp add: mult_left_le_one_le)
  have half: "x * eps \<le> x / 2"
    using xpos by (simp add: eps_def)
  have flow: "x / 2 \<le> fl x" and fup: "fl x \<le> 1 + eps"
    using e1 half xe xle by (simp_all add: abs_le_iff)
  define y :: rat where "y = fl x * 100"
  have ylow: "50 / 2 ^ 32 \<le> y" and yup: "y \<le> 100 + 100 * eps"
    using flow fup xlow by (simp_all add: y_def) 
  have ypos: "0 < y"
    using flow xpos by (simp add: y_def)
  have "1 / 2 ^ 32 \<le> y"
    using ylow by simp
  then have "2 powi (- 1022) \<le> \<bar>y\<bar>"
    using small ypos by linarith
  from fl_error [OF this] have "\<bar>fl y - y\<bar> \<le> y * eps"
    using ypos by (simp add: eps_def)
  moreover have "y * eps \<le> (100 + 100 * eps) * eps"
    using yup eps(1) by (simp add: mult_right_mono)
  moreover have "(100 + 100 * eps) * eps \<le> 101 * eps"
  proof -
    have "(100 * eps) * eps \<le> 1 * eps"
      using eps by (intro mult_right_mono) simp_all
    then show ?thesis by (simp add: algebra_simps)
  qed
  ultimately have e2: "\<bar>fl y - y\<bar> \<le> 101 * eps" by linarith
  have "\<bar>y - 100 * x\<bar> \<le> 100 * eps"
    using e1 xe by (simp add: y_def abs_le_iff) 
  with e2 have "\<bar>fl y - 100 * x\<bar> \<le> 201 * eps" by linarith
  then show ?thesis by (simp add: y_def x_def eps_def)
qed

lemma sentiment_counts_total:
  "bullishCount news + bearishCount news + neutralCount news = length news"
proof (induction news)
  case Nil
  show ?case by (simp add: bullishCount_def bearishCount_def neutralCount_def)
next
  case (Cons a news)
  then show ?case
    by (cases "sentiment a") (simp_all add: bullishCount_def bearishCount_def neutralCount_def)
qed

lemma count_le_length:
  "bullishCount news \<le> length news" "bearishCount news \<le> length news"
  "neutralCount news \<le> length news"
  by (simp_all add: bullishCount_def bearishCount_def neutralCount_def)

text \<open>
  Claim C10, as amended. The three tallies add up to the number of articles. For a
  non-empty list (a JavaScript array has fewer than \<open>2 ^ 32\<close> elements) the three
  widths, each the double \<open>(count / total) * 100\<close>, add up to 100 up to rounding: the
  sum is within \<open>603 / 2 ^ 53\<close> of 100. For the empty list the three widths are 0.
\<close>

theorem sentiment_bar_total:
  assumes "length news < 2 ^ 32"
  shows "bullishCount news + bearishCount news + neutralCount news = length news \<and>
    (if news = [] then sentimentBar news = \<lparr> bullishWidth = 0, neutralWidth = 0, bearishWidth = 0 \<rparr>
     else \<bar>bullishWidth (sentimentBar news) + neutralWidth (sentimentBar news) +
            bearishWidth (sentimentBar news) - 100\<bar> \<le> 603 / 2 ^ 53)"
proof (cases "news = []")
  case True
  then show ?thesis
    by (simp add: sentimentBar_def bullishCount_def bearishCount_def neutralCount_def)
next
  case False
  then have n: "0 < length news" by simp
  define k :: rat where "k = of_nat (length news)"
  define b :: rat where "b = of_nat (bullishCount news)"
  define u :: rat where "u = of_nat (neutralCount news)"
  define r :: rat where "r = of_nat (bearishCount news)"
  have kpos: "0 < k" using n by (simp add: k_def)
  have "b + r + u = k"
    unfolding b_def r_def u_def k_def
    using sentiment_counts_total [of news] by (metis of_nat_add)
  then have one: "100 * (b / k) + 100 * (u / k) + 100 * (r / k) = 100"
    using kpos by (simp add: field_simps)
  have eb: "\<bar>fl (fl (b / k) * 100) - 100 * (b / k)\<bar> \<le> 201 / 2 ^ 53"
    unfolding b_def k_def by (rule width_error [OF n assms count_le_length(1)])
  have eu: "\<bar>fl (fl (u / k) * 100) - 100 * (u / k)\<bar> \<le> 201 / 2 ^ 53"
    unfolding u_def k_def by (rule width_error [OF n assms count_le_length(3)])
  have er: "\<bar>fl (fl (r / k) * 100) - 100 * (r / k)\<bar> \<le> 201 / 2 ^ 53"
    unfolding r_def k_def by (rule width_error [OF n assms count_le_length(2)])
  have "\<bar>fl (fl (b / k) * 100) + fl (fl (u / k) * 100) + fl (fl (r / k) * 100) - 100\<bar>
      \<le> 603 / 2 ^ 53"
    using eb eu er one by linarith
  then show ?thesis
    using False n sentiment_counts_total [of news]
    by (simp add: sentimentBar_def b_def u_def r_def k_def)
qed

lemma three_sentiments_bar:
  "sentimentBar [article0, article0\<lparr>sentiment := Bullish\<rparr>, article0\<lparr>sentiment := Neutral\<rparr>] =
     \<lparr> bullishWidth = 4691249611844266 / 2 ^ 47, neutralWidth = 4691249611844266 / 2 ^ 47,
       bearishWidth = 4691249611844266 / 2 ^ 47 \<rparr>"
  by code_simp

theorem sentiment_bar_total_witness:
  "\<bar>bullishWidth (sentimentBar [article0, article0\<lparr>sentiment := Bullish\<rparr>, article0\<lparr>sentiment := Neutral\<rparr>]) +
    neutralWidth (sentimentBar [article0, article0\<lparr>sentiment := Bullish\<rparr>, article0\<lparr>sentiment := Neutral\<rparr>]) +
    bearishWidth (sentimentBar [article0, article0\<lparr>sentiment := Bullish\<rparr>, article0\<lparr>sentiment := Neutral\<rparr>]) - 100\<bar>
     \<le> 603 / 2 ^ 53 \<and>
   sentimentBar [] = \<lparr> bullishWidth = 0, neutralWidth = 0, bearishWidth = 0 \<rparr>"
  using sentiment_bar_total [of "[article0, article0\<lparr>sentiment := Bullish\<rparr>, article0\<lparr>sentiment := Neutral\<rparr>]"]
    sentiment_bar_total [of "[]"]
  by simp

text \<open>
  Claim C10 as stated fails: with one article of each sentiment every width is the
  double just below 100 / 3, and the three add up to \<open>100 - 1 / 2 ^ 46\<close>, not to 100.
\<close>

theorem sentiment_bar_not_exact:
  "bullishCount [article0, article0\<lparr>sentiment := Bullish\<rparr>, article0\<lparr>sentiment := Neutral\<rparr>] +
   bearishCount [article0, article0\<lparr>sentiment := Bullish\<rparr>, article0\<lparr>sentiment := Neutral\<rparr>] +
   neutralCount [article0, article0\<lparr>sentiment := Bullish\<rparr>, article0\<lparr>sentiment := Neutral\<rparr>] = 3 \<and>
   bullishWidth (sentimentBar [article0, article0\<lparr>sentiment := Bullish\<rparr>, article0\<lparr>sentiment := Neutral\<rparr>]) +
   neutralWidth (sentimentBar [article0, article0\<lparr>sentiment := Bullish\<rparr>, article0\<lparr>sentiment := Neutral\<rparr>]) +
   bearishWidth (sentimentBar [article0, article0\<lparr>sentiment := Bullish\<rparr>, article0\<lparr>sentiment := Neutral\<rparr>])
     = 100 - 1 / 2 ^ 46 \<and>
   bullishWidth (sentimentBar [article0, article0\<lparr>sentiment := Bullish\<rparr>, article0\<lparr>sentiment := Neutral\<rparr>]) +
   neutralWidth (sentimentBar [article0, article0\<lparr>sentiment := Bullish\<rparr>, article0\<lparr>sentiment := Neutral\<rparr>]) +
   bearishWidth (sentimentBar [article0, article0\<lparr>sentiment := Bullish\<rparr>, article0\<lparr>sentiment := Neutral\<rparr>])
     \<noteq> 100"
proof -
  have "bullishCount [article0, article0\<lparr>sentiment := Bullish\<rparr>, article0\<lparr>sentiment := Neutral\<rparr>] +
   bearishCount [article0, article0\<lparr>sentiment := Bullish\<rparr>, article0\<lparr>sentiment := Neutral\<rparr>] +
   neutralCount [article0, article0\<lparr>sentiment := Bullish\<rparr>, article0\<lparr>sentiment := Neutral\<rparr>] = 3"
    by (simp add: bullishCount_def bearishCount_def neutralCount_def article0_def)
  then show ?thesis
    by (simp add: three_sentiments_bar)
qed

end
